theory Spec2Isabelle
  imports Main "HOL-Library.Sublist"
begin

section \<open>Strings\<close>

text \<open>
  A Python \<open>str\<close> is a sequence of Unicode code points, and \<open>len\<close> counts code points.
  A string is therefore a list of code points (natural numbers); the ASCII literals of the
  source are written as HOL string literals and converted by \<open>ascii\<close>.
\<close>

type_synonym codepoint = nat
type_synonym pystr = "codepoint list"

definition ascii :: "string \<Rightarrow> pystr" where
  "ascii s = map of_char s"

text \<open>
  Exceptions: the class of the raised object and \<open>str(e)\<close>. Every exception modelled is
  an instance of \<open>Exception\<close>, as those of the interpreter and of the libraries are.
\<close>

datatype exn = Raised string pystr

fun str_exn :: "exn \<Rightarrow> pystr" where
  "str_exn (Raised cls msg) = msg"

section \<open>Regular expressions (the fragment of \<open>re\<close> the validator uses)\<close>

text \<open>
  For a \<open>str\<close> pattern \<open>\d\<close> matches every Unicode decimal digit (category Nd) and \<open>\s\<close>
  every Unicode whitespace character. The tables are those of CPython 3.11 (Unicode 14.0):
  the decimal digits come in blocks of ten consecutive code points, listed by their first
  code point.
\<close>

definition decimal_blocks :: "codepoint list" where
  "decimal_blocks =
    [0x30, 0x660, 0x6F0, 0x7C0, 0x966, 0x9E6, 0xA66, 0xAE6, 0xB66, 0xBE6, 0xC66, 0xCE6,
     0xD66, 0xDE6, 0xE50, 0xED0, 0xF20, 0x1040, 0x1090, 0x17E0, 0x1810, 0x1946, 0x19D0,
     0x1A80, 0x1A90, 0x1B50, 0x1BB0, 0x1C40, 0x1C50, 0xA620, 0xA8D0, 0xA900, 0xA9D0,
     0xA9F0, 0xAA50, 0xABF0, 0xFF10, 0x104A0, 0x10D30, 0x11066, 0x110F0, 0x11136,
     0x111D0, 0x112F0, 0x11450, 0x114D0, 0x11650, 0x116C0, 0x11730, 0x118E0, 0x11950,
     0x11C50, 0x11D50, 0x11DA0, 0x16A60, 0x16AC0, 0x16B50,
     0x1D7CE, 0x1D7D8, 0x1D7E2, 0x1D7EC, 0x1D7F6,
     0x1E140, 0x1E2F0, 0x1E950, 0x1FBF0]"

definition is_decimal :: "codepoint \<Rightarrow> bool" where
  "is_decimal c = list_ex (\<lambda>b. b \<le> c \<and> c < b + 10) decimal_blocks"

definition is_whitespace :: "codepoint \<Rightarrow> bool" where
  "is_whitespace c =
    ((0x09 \<le> c \<and> c \<le> 0x0D) \<or> (0x1C \<le> c \<and> c \<le> 0x20) \<or> c = 0x85 \<or> c = 0xA0 \<or>
     c = 0x1680 \<or> (0x2000 \<le> c \<and> c \<le> 0x200A) \<or> c = 0x2028 \<or> c = 0x2029 \<or>
     c = 0x202F \<or> c = 0x205F \<or> c = 0x3000)"

datatype cclass = Digit | Whitespace

fun in_class :: "cclass \<Rightarrow> codepoint \<Rightarrow> bool" where
  "in_class Digit c = is_decimal c"
| "in_class Whitespace c = is_whitespace c"

text \<open>
  Patterns: \<open>^\<close>, \<open>$\<close>, a literal, \<open>\d+\<close> or \<open>\s+\<close>, concatenation and alternation.
\<close>

datatype regex =
    Bol
  | Eol
  | Lit pystr
  | Plus cclass
  | Seq regex regex
  | Alt regex regex

text \<open>
  The matcher is a backtracking one, as \<open>re\<close> is: from a position (the number of code
  points consumed and the rest of the subject) it returns every position at which a match
  of the pattern can end, in the order in which the engine tries them (\<open>+\<close> is greedy,
  alternatives are tried left to right).

  Without \<open>re.MULTILINE\<close>, \<open>^\<close> matches only at the start of the subject, and \<open>$\<close> matches
  at its end and also just before a newline that is its last character.
\<close>

fun plus_class :: "cclass \<Rightarrow> nat \<Rightarrow> pystr \<Rightarrow> (nat \<times> pystr) list" where
  "plus_class k i [] = []"
| "plus_class k i (c # cs) =
     (if in_class k c then plus_class k (Suc i) cs @ [(Suc i, cs)] else [])"

fun ends :: "regex \<Rightarrow> nat \<times> pystr \<Rightarrow> (nat \<times> pystr) list" where
  "ends Bol (i, s) = (if i = 0 then [(i, s)] else [])"
| "ends Eol (i, s) = (if s = [] \<or> s = [0x0A] then [(i, s)] else [])"
| "ends (Lit w) (i, s) = (if prefix w s then [(i + length w, drop (length w) s)] else [])"
| "ends (Plus k) (i, s) = plus_class k i s"
| "ends (Seq a b) st = concat (map (ends b) (ends a st))"
| "ends (Alt a b) st = ends a st @ ends b st"

text \<open>\<open>re.match(p, s)\<close> returns a match object (which is truthy) or \<open>None\<close>.\<close>

definition re_match :: "regex \<Rightarrow> pystr \<Rightarrow> bool" where
  "re_match p s = (ends p (0, s) \<noteq> [])"

text \<open>A whole-string match (\<open>re.fullmatch\<close>): some match of the pattern ends at the end
  of the subject.\<close>

definition re_fullmatch :: "regex \<Rightarrow> pystr \<Rightarrow> bool" where
  "re_fullmatch p s = list_ex (\<lambda>st. snd st = []) (ends p (0, s))"

text \<open>The group \<open>(year|years|month|months|day|days)\<close>.\<close>

definition unit_group :: regex where
  "unit_group =
    Alt (Lit (ascii ''year'')) (Alt (Lit (ascii ''years'')) (Alt (Lit (ascii ''month''))
      (Alt (Lit (ascii ''months'')) (Alt (Lit (ascii ''day'')) (Lit (ascii ''days''))))))"

text \<open>The pattern of the specification: \<open>\d+\s+(year|years|month|months|day|days)\<close>.\<close>

definition duration_pattern :: regex where
  "duration_pattern = Seq (Plus Digit) (Seq (Plus Whitespace) unit_group)"

text \<open>The pattern of the source: \<open>^\d+\s+(year|years|month|months|day|days)$\<close>.\<close>

definition duration_re :: regex where
  "duration_re = Seq Bol (Seq (Plus Digit) (Seq (Plus Whitespace) (Seq unit_group Eol)))"

section \<open>The request and its validation\<close>

record ContractRequest =
  contract_type :: pystr
  party_a :: pystr
  party_b :: pystr
  duration :: pystr
  clause_query :: pystr
  property_address :: "pystr option"
  position :: "pystr option"
  goods_description :: "pystr option"
  scope :: "pystr option"
  jurisdiction :: pystr

text \<open>The nine values of the \<open>Literal\<close> type of \<open>contract_type\<close>, in the source's order.\<close>

definition contract_types :: "pystr list" where
  "contract_types =
    [ascii ''nda'', ascii ''contractor'', ascii ''sla'', ascii ''partnership'',
     ascii ''sales'', ascii ''employment'', ascii ''lease'', ascii ''mou'',
     ascii ''noncompete'']"

definition validate_party_names :: "pystr \<Rightarrow> exn + pystr" where
  "validate_party_names v =
    (if v = [] \<or> length v < 2
     then Inl (Raised ''ValueError''
       (ascii ''Party names must be valid and at least 2 characters long''))
     else Inr v)"

definition validate_duration :: "pystr \<Rightarrow> exn + pystr" where
  "validate_duration v =
    (if \<not> re_match duration_re v
     then Inl (Raised ''ValueError''
       (ascii ''Duration must be in format '' @ [0x27] @
        ascii ''# year/years/month/months/day/days'' @ [0x27]))
     else Inr v)"

text \<open>
  The payload as the model class receives it: a required field may be absent (\<open>None\<close>).
  The class reports a missing required field, a \<open>contract_type\<close> outside the literal
  type, and every \<open>ValueError\<close> of a validator, each under the field's name; a validator
  runs only on a field that is present. An absent \<open>jurisdiction\<close> takes the default.
\<close>

record RawRequest =
  raw_contract_type :: "pystr option"
  raw_party_a :: "pystr option"
  raw_party_b :: "pystr option"
  raw_duration :: "pystr option"
  raw_clause_query :: "pystr option"
  raw_property_address :: "pystr option"
  raw_position :: "pystr option"
  raw_goods_description :: "pystr option"
  raw_scope :: "pystr option"
  raw_jurisdiction :: "pystr option"

datatype field_error = Missing string | Invalid string pystr

text \<open>
  The check of the \<open>Literal\<close> type, with the wording of pydantic 1 (whose \<open>validator\<close>
  decorator the source uses) for a value outside the nine.
\<close>

definition validate_literal :: "pystr \<Rightarrow> exn + pystr" where
  "validate_literal v =
    (if v \<in> set contract_types then Inr v
     else Inl (Raised ''ValueError''
       (ascii ''unexpected value; permitted: 'nda', 'contractor', 'sla', 'partnership', 'sales', 'employment', 'lease', 'mou', 'noncompete'' @ [0x27])))"

definition accept :: "pystr \<Rightarrow> exn + pystr" where
  "accept v = Inr v"

fun field :: "string \<Rightarrow> pystr option \<Rightarrow> (pystr \<Rightarrow> exn + pystr) \<Rightarrow> field_error list + pystr" where
  "field name None f = Inl [Missing name]"
| "field name (Some v) f =
     (case f v of Inl e \<Rightarrow> Inl [Invalid name (str_exn e)] | Inr v' \<Rightarrow> Inr v')"

fun errors_of :: "field_error list + pystr \<Rightarrow> field_error list" where
  "errors_of (Inl es) = es"
| "errors_of (Inr v) = []"

definition validate_request :: "RawRequest \<Rightarrow> field_error list + ContractRequest" where
  "validate_request raw =
    (let ct = field ''contract_type'' (raw_contract_type raw) validate_literal;
         pa = field ''party_a'' (raw_party_a raw) validate_party_names;
         pb = field ''party_b'' (raw_party_b raw) validate_party_names;
         du = field ''duration'' (raw_duration raw) validate_duration;
         cq = field ''clause_query'' (raw_clause_query raw) accept
     in case (ct, pa, pb, du, cq) of
          (Inr t, Inr a, Inr b, Inr d, Inr q) \<Rightarrow>
            Inr \<lparr>contract_type = t, party_a = a, party_b = b, duration = d,
                 clause_query = q,
                 property_address = raw_property_address raw,
                 position = raw_position raw,
                 goods_description = raw_goods_description raw,
                 scope = raw_scope raw,
                 jurisdiction =
                   (case raw_jurisdiction raw of None \<Rightarrow> ascii ''New Delhi'' | Some j \<Rightarrow> j)\<rparr>
        | _ \<Rightarrow> Inl (errors_of ct @ errors_of pa @ errors_of pb @ errors_of du @ errors_of cq))"

text \<open>A request that passed validation: what every validated request satisfies.\<close>

definition validated :: "ContractRequest \<Rightarrow> bool" where
  "validated d =
    (contract_type d \<in> set contract_types \<and>
     validate_party_names (party_a d) = Inr (party_a d) \<and>
     validate_party_names (party_b d) = Inr (party_b d) \<and>
     validate_duration (duration d) = Inr (duration d))"

section \<open>Clause retrieval\<close>

text \<open>\<open>m.get(k, d)\<close> on a dictionary written as an association list.\<close>

definition dict_get :: "('k \<times> 'v) list \<Rightarrow> 'k \<Rightarrow> 'v \<Rightarrow> 'v" where
  "dict_get m k d = (case map_of m k of None \<Rightarrow> d | Some v \<Rightarrow> v)"

definition specialized_clause_banks :: "(pystr \<times> pystr list) list" where
  "specialized_clause_banks =
    [(ascii ''nda'',
       [ascii ''All confidential information shall remain the exclusive property of the disclosing party and shall not be used for any purpose other than the intended business collaboration.'',
        ascii ''Breach of confidentiality shall result in liquidated damages of INR 10,00,000 and potential legal action under Information Technology Act, 2000.'',
        ascii ''Confidentiality obligations persist for five years post-termination of agreement.'']),
     (ascii ''employment'',
       [ascii ''The employee agrees to abide by the company's code of conduct and intellectual property guidelines as per Indian labor laws.'',
        ascii ''Termination may occur with notice as specified in Industrial Disputes Act, 1947.'',
        ascii ''Dispute resolution through mandatory arbitration under Arbitration and Conciliation Act, 1996.'']),
     (ascii ''noncompete'',
       [ascii ''The restricted period shall not exceed two years and shall be limited to the metropolitan areas where the employer conducts primary business.'',
        ascii ''Compensation shall be provided to the employee during the non-compete period as per legal standards.'',
        ascii ''The non-compete clause is subject to judicial review of reasonableness.''])]"

definition default_clauses :: "pystr list" where
  "default_clauses =
    [ascii ''This Agreement shall be governed by the laws of India and subject to the jurisdiction of courts in New Delhi.'',
     ascii ''All disputes shall be resolved through arbitration under the Arbitration and Conciliation Act, 1996.'',
     ascii ''Each party shall bear its own legal costs unless otherwise specified by law.'']"

text \<open>\<open>clauses[0]\<close> raises \<open>IndexError\<close> on an empty list.\<close>

definition retrieve_clause :: "pystr \<Rightarrow> pystr \<Rightarrow> exn + pystr" where
  "retrieve_clause query ctype =
    (let clauses = dict_get specialized_clause_banks ctype default_clauses
     in case clauses of
          [] \<Rightarrow> Inl (Raised ''IndexError'' (ascii ''list index out of range''))
        | c # _ \<Rightarrow> Inr c)"

section \<open>Template generator\<close>

text \<open>
  An f-string is a sequence of literal text (\<open>T\<close>), line breaks (\<open>NL\<close>, the escape
  \<open>\n\<close>) and substituted values (\<open>V\<close>). Formatting a \<open>str\<close> gives the string itself, and
  formatting \<open>None\<close> gives the text \<open>None\<close>.
\<close>

datatype piece = T string | NL | V pystr

fun render :: "piece \<Rightarrow> pystr" where
  "render (T s) = ascii s"
| "render NL = [0x0A]"
| "render (V v) = v"

definition fstr :: "piece list \<Rightarrow> pystr" where
  "fstr ps = concat (map render ps)"

fun fmt_opt :: "pystr option \<Rightarrow> pystr" where
  "fmt_opt None = ascii ''None''"
| "fmt_opt (Some s) = s"

text \<open>The dictionary \<open>legal_templates\<close>: all nine texts are built before the lookup.\<close>

definition legal_templates :: "ContractRequest \<Rightarrow> pystr \<Rightarrow> (pystr \<times> pystr) list" where
  "legal_templates data clause =
    (let A = party_a data; B = party_b data; D = duration data; J = jurisdiction data in
     [(ascii ''nda'', fstr
        [T ''NON-DISCLOSURE AGREEMENT'', NL, NL,
         T ''This Non-Disclosure Agreement is made between '', V A, T '' and '', V B, T ''.'', NL, NL,
         T ''1. Term: '', V D, NL,
         T ''2. Confidentiality: All information exchanged shall be kept confidential.'', NL,
         T ''3. Legal Clause: '', V clause, NL,
         T ''4. Jurisdiction: Governed by the laws of India, jurisdiction in '', V J, T ''.'', NL, NL,
         T ''Signed: '', V A, T '', '', V B]),
      (ascii ''contractor'', fstr
        [T ''INDEPENDENT CONTRACTOR AGREEMENT'', NL, NL,
         T ''This agreement is made between '', V A, T '' and '', V B, T ''.'', NL, NL,
         T ''1. Duration: '', V D, NL,
         T ''2. Role: Independent Contractor'', NL,
         T ''3. Legal Clause: '', V clause, NL,
         T ''4. Jurisdiction: '', V J, NL, NL,
         T ''Signed: '', V A, T '', '', V B]),
      (ascii ''sla'', fstr
        [T ''SERVICE LEVEL AGREEMENT'', NL, NL,
         T ''This agreement is between '', V A, T '' and '', V B, T ''.'', NL, NL,
         T ''1. Term: '', V D, NL,
         T ''2. Services: As per annexure'', NL,
         T ''3. Legal Clause: '', V clause, NL,
         T ''4. Jurisdiction: '', V J, NL, NL,
         T ''Signed: '', V A, T '', '', V B]),
      (ascii ''partnership'', fstr
        [T ''PARTNERSHIP AGREEMENT'', NL, NL,
         T ''This partnership is entered between '', V A, T '' and '', V B, T ''.'', NL, NL,
         T ''1. Term: '', V D, NL,
         T ''2. Terms: Equal stake and responsibility'', NL,
         T ''3. Legal Clause: '', V clause, NL,
         T ''4. Jurisdiction: '', V J, NL, NL,
         T ''Signed: '', V A, T '', '', V B]),
      (ascii ''sales'', fstr
        [T ''SALES AGREEMENT'', NL, NL,
         T ''This agreement is made between '', V A, T '' (Seller) and '', V B, T '' (Buyer).'', NL, NL,
         T ''1. Duration: '', V D, NL,
         T ''2. Goods/Services: '', V (fmt_opt (goods_description data)), NL,
         T ''3. Legal Clause: '', V clause, NL,
         T ''4. Jurisdiction: '', V J, NL, NL,
         T ''Signed: '', V A, T '', '', V B]),
      (ascii ''employment'', fstr
        [T ''EMPLOYMENT AGREEMENT'', NL, NL,
         T ''This employment agreement is made between '', V A, T '' and '', V B, T ''.'', NL, NL,
         T ''1. Position: '', V (fmt_opt (position data)), NL,
         T ''2. Duration: '', V D, NL,
         T ''3. Legal Clause: '', V clause, NL,
         T ''4. Jurisdiction: '', V J, NL, NL,
         T ''Signed: '', V A, T '', '', V B]),
      (ascii ''lease'', fstr
        [T ''LEASE AGREEMENT'', NL, NL,
         T ''This agreement is made between '', V A, T '' (Lessor) and '', V B, T '' (Lessee).'', NL, NL,
         T ''1. Property: '', V (fmt_opt (property_address data)), NL,
         T ''2. Duration: '', V D, NL,
         T ''3. Legal Clause: '', V clause, NL,
         T ''4. Jurisdiction: '', V J, NL, NL,
         T ''Signed: '', V A, T '', '', V B]),
      (ascii ''mou'', fstr
        [T ''MEMORANDUM OF UNDERSTANDING'', NL, NL,
         T ''This MoU is entered into by '', V A, T '' and '', V B, T ''.'', NL, NL,
         T ''1. Term: '', V D, NL,
         T ''2. Understanding: As per mutual discussion'', NL,
         T ''3. Legal Clause: '', V clause, NL,
         T ''4. Jurisdiction: '', V J, NL, NL,
         T ''Signed: '', V A, T '', '', V B]),
      (ascii ''noncompete'', fstr
        [T ''NON-COMPETE AGREEMENT'', NL, NL,
         T ''This agreement is between '', V A, T '' and '', V B, T ''.'', NL, NL,
         T ''1. Duration: '', V D, NL,
         T ''2. Scope: '', V (fmt_opt (scope data)), NL,
         T ''3. Legal Clause: '', V clause, NL,
         T ''4. Jurisdiction: '', V J, NL, NL,
         T ''Signed: '', V A, T '', '', V B])])"

definition invalid_contract_type :: pystr where
  "invalid_contract_type = ascii ''Invalid contract type.''"

definition get_legal_template :: "ContractRequest \<Rightarrow> pystr \<Rightarrow> pystr" where
  "get_legal_template data clause =
    dict_get (legal_templates data clause) (contract_type data) invalid_contract_type"

section \<open>PDF export\<close>

text \<open>
  \<open>s.replace(old, new)\<close>: every occurrence of \<open>old\<close> in \<open>s\<close>, found from left to right
  without overlap, is replaced by \<open>new\<close>; an empty \<open>old\<close> matches before every code point
  and at the end.
\<close>

function py_replace :: "pystr \<Rightarrow> pystr \<Rightarrow> pystr \<Rightarrow> pystr" where
  "py_replace [] old new = (if old = [] then new else [])"
| "py_replace (c # cs) old new =
     (if old = [] then new @ c # py_replace cs old new
      else if prefix old (c # cs) then new @ py_replace (drop (length old) (c # cs)) old new
      else c # py_replace cs old new)"
  by pat_completeness auto
termination
  by (relation "measure (\<lambda>(s, old, new). length s)") (auto simp: neq_Nil_conv)

text \<open>
  The first statement of \<open>save_as_pdf\<close>: the right single quotation mark (U+2019), the
  left and right double quotation marks (U+201C, U+201D) and the rupee sign (U+20B9) are
  replaced, in this order.
\<close>

definition normalize_content :: "pystr \<Rightarrow> pystr" where
  "normalize_content content =
    py_replace (py_replace (py_replace (py_replace content
      [0x2019] [0x27]) [0x201C] [0x22]) [0x201D] [0x22]) [0x20B9] (ascii ''Rs.'')"

text \<open>\<open>content.split("\n")\<close>.\<close>

fun split_lines :: "pystr \<Rightarrow> pystr list" where
  "split_lines [] = [[]]"
| "split_lines (c # cs) =
     (if c = 0x0A then [] # split_lines cs
      else (case split_lines cs of [] \<Rightarrow> [[c]] | l # ls \<Rightarrow> (c # l) # ls))"

section \<open>The collaborators\<close>

text \<open>A decoded JSON body: the Python value \<open>json()\<close> returns (a \<open>dict\<close> has each key once).\<close>

datatype json =
    JNull
  | JBool bool
  | JInt int
  | JFloat pystr
  | JStr pystr
  | JArr "json list"
  | JObj "(pystr \<times> json) list"

fun type_name :: "json \<Rightarrow> string" where
  "type_name JNull = ''NoneType''"
| "type_name (JBool b) = ''bool''"
| "type_name (JInt i) = ''int''"
| "type_name (JFloat f) = ''float''"
| "type_name (JStr s) = ''str''"
| "type_name (JArr xs) = ''list''"
| "type_name (JObj kvs) = ''dict''"

text \<open>\<open>v.get(k)\<close>: only a \<open>dict\<close> has the method; a missing key gives \<open>None\<close>.\<close>

fun method_get :: "json \<Rightarrow> pystr \<Rightarrow> exn + json" where
  "method_get (JObj kvs) k = Inr (case map_of kvs k of None \<Rightarrow> JNull | Some v \<Rightarrow> v)"
| "method_get v k =
     Inl (Raised ''AttributeError''
       ([0x27] @ ascii (type_name v) @ [0x27] @ ascii '' object has no attribute '' @
        [0x27] @ ascii ''get'' @ [0x27]))"

text \<open>
  \<open>v[k]\<close> for a string key \<open>k\<close>: a \<open>dict\<close> raises \<open>KeyError\<close> on a missing key (its
  \<open>str\<close> is the key's \<open>repr\<close>: the key in quotes, for a key made of letters, as the
  keys of the source are), every other value raises \<open>TypeError\<close>.
\<close>

fun subscript :: "json \<Rightarrow> pystr \<Rightarrow> exn + json" where
  "subscript (JObj kvs) k =
     (case map_of kvs k of
        None \<Rightarrow> Inl (Raised ''KeyError'' ([0x27] @ k @ [0x27]))
      | Some v \<Rightarrow> Inr v)"
| "subscript (JArr xs) k =
     Inl (Raised ''TypeError'' (ascii ''list indices must be integers or slices, not str''))"
| "subscript (JStr s) k =
     Inl (Raised ''TypeError''
       (ascii ''string indices must be integers, not '' @ [0x27] @ ascii ''str'' @ [0x27]))"
| "subscript v k =
     Inl (Raised ''TypeError''
       ([0x27] @ ascii (type_name v) @ [0x27] @ ascii '' object is not subscriptable''))"

text \<open>\<open>str(n)\<close> for an integer: its decimal digits, with a minus sign when negative.\<close>

function str_nat :: "nat \<Rightarrow> pystr" where
  "str_nat n = (if n < 10 then [0x30 + n] else str_nat (n div 10) @ [0x30 + n mod 10])"
  by pat_completeness auto
termination
  by (relation "measure id") auto

definition str_int :: "int \<Rightarrow> pystr" where
  "str_int i = (if i < 0 then 0x2D # str_nat (nat (- i)) else str_nat (nat i))"

text \<open>The response of the upload: its status code and what \<open>json()\<close> does on its body.\<close>

record upload_response =
  status_code :: int
  json_result :: "exn + json"

text \<open>
  Everything the handler takes from outside the program, for one request:
  \<^item> \<open>uuid4_hex\<close>: the value of \<open>uuid.uuid4().hex\<close>;
  \<^item> \<open>py_repr\<close>: the interpreter's \<open>repr\<close> of a decoded value;
  \<^item> \<open>chat_completion\<close>: the text-completion service. The prompt is a fixed function of
    the clause and the contract type, so the outcome of the call, of reading the first
    choice and of stripping it is given for the clause and the type: the text, or the
    exception raised on the way;
  \<^item> \<open>fpdf_output\<close>: the PDF library, laying out the lines and writing the file;
  \<^item> \<open>open_rb\<close>: opening the written file for reading;
  \<^item> \<open>requests_post\<close>: the upload of the file of that name.
\<close>

record world =
  uuid4_hex :: pystr
  py_repr :: "json \<Rightarrow> pystr"
  chat_completion :: "pystr \<Rightarrow> pystr \<Rightarrow> exn + pystr"
  fpdf_output :: "pystr list \<Rightarrow> pystr \<Rightarrow> exn + unit"
  open_rb :: "pystr \<Rightarrow> exn + unit"
  requests_post :: "pystr \<Rightarrow> exn + upload_response"

text \<open>
  \<open>LEGAL_PROMPTS[contract_type]\<close> is read while the prompt is built; its keys are the
  nine contract types.
\<close>

definition refine_clause_with_legal_expertise :: "world \<Rightarrow> pystr \<Rightarrow> pystr \<Rightarrow> exn + pystr" where
  "refine_clause_with_legal_expertise w clause ctype =
    (if ctype \<in> set contract_types then chat_completion w clause ctype
     else Inl (Raised ''KeyError'' (py_repr w (JStr ctype))))"

definition save_as_pdf :: "world \<Rightarrow> pystr \<Rightarrow> pystr \<Rightarrow> exn + unit" where
  "save_as_pdf w content filename =
    fpdf_output w (split_lines (normalize_content content)) filename"

section \<open>The endpoint\<close>

text \<open>Sequencing of steps that may raise: the first exception ends the \<open>try\<close> block.\<close>

fun and_then :: "exn + 'a \<Rightarrow> ('a \<Rightarrow> exn + 'b) \<Rightarrow> exn + 'b" where
  "and_then (Inl e) f = Inl e"
| "and_then (Inr x) f = f x"

text \<open>
  The upload, from opening the file to reading the download page out of the body
  (the statements from \<open>with open(filename, "rb")\<close> to \<open>file_url = ...\<close>).
\<close>

definition upload :: "world \<Rightarrow> pystr \<Rightarrow> exn + json" where
  "upload w filename =
    and_then (open_rb w filename) (\<lambda>f.
    and_then (requests_post w filename) (\<lambda>upload_res.
      if status_code upload_res \<noteq> 200
      then Inl (Raised ''Exception''
             (ascii ''Upload failed: '' @ str_int (status_code upload_res)))
      else
        and_then (json_result upload_res) (\<lambda>res_json.
        and_then (method_get res_json (ascii ''status'')) (\<lambda>st.
          if st \<noteq> JStr (ascii ''ok'')
          then Inl (Raised ''Exception'' (ascii ''Gofile error: '' @ py_repr w res_json))
          else
            and_then (subscript res_json (ascii ''data'')) (\<lambda>dat.
            subscript dat (ascii ''downloadPage''))))))"

record Response =
  message :: pystr
  contract :: pystr
  pdf_url :: json

datatype http_exception = HTTPException (exc_status_code: int) (detail: pystr)

text \<open>The body of the \<open>try\<close> block.\<close>

definition generate_contract_try :: "world \<Rightarrow> ContractRequest \<Rightarrow> exn + Response" where
  "generate_contract_try w data =
    and_then (retrieve_clause (clause_query data) (contract_type data)) (\<lambda>raw_clause.
    and_then (refine_clause_with_legal_expertise w raw_clause (contract_type data))
      (\<lambda>refined_clause.
    let contract_text = get_legal_template data refined_clause;
        filename = uuid4_hex w @ ascii ''.pdf''
    in
    and_then (save_as_pdf w contract_text filename) (\<lambda>u.
    and_then (upload w filename) (\<lambda>file_url.
      Inr \<lparr>message = ascii ''Contract generated and uploaded.'',
           contract = contract_text,
           pdf_url = file_url\<rparr>))))"

text \<open>The handler: \<open>except Exception as e\<close> turns every exception of the block into
  an \<open>HTTPException\<close> with status 400.\<close>

definition generate_contract :: "world \<Rightarrow> ContractRequest \<Rightarrow> http_exception + Response" where
  "generate_contract w data =
    (case generate_contract_try w data of
       Inl e \<Rightarrow> Inl (HTTPException 400 (ascii ''Contract generation failed: '' @ str_exn e))
     | Inr r \<Rightarrow> Inr r)"

section \<open>The language of a pattern\<close>

text \<open>
  For a pattern without \<open>^\<close> and \<open>$\<close>, the strings it matches as a whole; the matcher is
  related to it below.
\<close>

fun anchor_free :: "regex \<Rightarrow> bool" where
  "anchor_free Bol = False"
| "anchor_free Eol = False"
| "anchor_free (Lit w) = True"
| "anchor_free (Plus k) = True"
| "anchor_free (Seq a b) = (anchor_free a \<and> anchor_free b)"
| "anchor_free (Alt a b) = (anchor_free a \<and> anchor_free b)"

fun lang :: "regex \<Rightarrow> pystr set" where
  "lang Bol = {[]}"
| "lang Eol = {[]}"
| "lang (Lit w) = {w}"
| "lang (Plus k) = {p. p \<noteq> [] \<and> list_all (in_class k) p}"
| "lang (Seq a b) = {p @ q | p q. p \<in> lang a \<and> q \<in> lang b}"
| "lang (Alt a b) = lang a \<union> lang b"

section \<open>Sample requests and collaborators\<close>

text \<open>The request of the specification's end-to-end scenario, as payload and as model.\<close>

definition scenario_raw :: RawRequest where
  "scenario_raw =
    \<lparr>raw_contract_type = Some (ascii ''nda''), raw_party_a = Some (ascii ''Acme Inc''),
     raw_party_b = Some (ascii ''Beta LLC''), raw_duration = Some (ascii ''2 years''),
     raw_clause_query = Some (ascii ''confidentiality''), raw_property_address = None,
     raw_position = None, raw_goods_description = None, raw_scope = None,
     raw_jurisdiction = Some (ascii ''New Delhi'')\<rparr>"

definition scenario_request :: ContractRequest where
  "scenario_request =
    \<lparr>contract_type = ascii ''nda'', party_a = ascii ''Acme Inc'', party_b = ascii ''Beta LLC'',
     duration = ascii ''2 years'', clause_query = ascii ''confidentiality'',
     property_address = None, position = None, goods_description = None, scope = None,
     jurisdiction = ascii ''New Delhi''\<rparr>"

text \<open>A lease request that gives no property address, and a request of an unknown type.\<close>

definition lease_request :: ContractRequest where
  "lease_request =
    \<lparr>contract_type = ascii ''lease'', party_a = ascii ''Asha Rao'', party_b = ascii ''Vikram Mehta'',
     duration = ascii ''11 months'', clause_query = ascii ''rent'',
     property_address = None, position = None, goods_description = None, scope = None,
     jurisdiction = ascii ''New Delhi''\<rparr>"

definition will_request :: ContractRequest where
  "will_request = scenario_request\<lparr>contract_type := ascii ''will''\<rparr>"

definition refined_sample :: pystr where
  "refined_sample = ascii ''Confidential information shall be protected.''"

text \<open>
  What the specification says of the normalization, code point by code point: the right
  single quotation mark becomes an apostrophe, the left and right double quotation marks
  become a double quote, the rupee sign becomes \<open>Rs.\<close>, every other code point stays.
\<close>

definition normalize_char :: "codepoint \<Rightarrow> pystr" where
  "normalize_char c =
    (if c = 0x2019 then [0x27]
     else if c = 0x201C \<or> c = 0x201D then [0x22]
     else if c = 0x20B9 then ascii ''Rs.''
     else [c])"

text \<open>
  Collaborators that answer the same whatever they are asked: the refined clause (or the
  exception of the completion call), the outcome of writing the PDF, and the response of
  the upload (or the exception of the request). Opening the written file succeeds.
\<close>

definition ok_body :: json where
  "ok_body =
    JObj [(ascii ''status'', JStr (ascii ''ok'')),
          (ascii ''data'', JObj [(ascii ''downloadPage'', JStr (ascii ''https://example/x''))])]"

definition no_data_body :: json where
  "no_data_body = JObj [(ascii ''status'', JStr (ascii ''ok''))]"

definition stub_world :: "(exn + pystr) \<Rightarrow> (exn + unit) \<Rightarrow> (exn + upload_response) \<Rightarrow> world" where
  "stub_world refined written posted =
    \<lparr>uuid4_hex = ascii ''0f8fad5bd9cb469fa16570867728950e'',
     py_repr = (\<lambda>v. ascii ''<repr>''),
     chat_completion = (\<lambda>clause ctype. refined),
     fpdf_output = (\<lambda>lines filename. written),
     open_rb = (\<lambda>filename. Inr ()),
     requests_post = (\<lambda>filename. posted)\<rparr>"

definition stub_filename :: pystr where
  "stub_filename = ascii ''0f8fad5bd9cb469fa16570867728950e.pdf''"

definition ok_world :: world where
  "ok_world = stub_world (Inr refined_sample) (Inr ())
     (Inr \<lparr>status_code = 200, json_result = Inr ok_body\<rparr>)"

definition refine_fails_world :: world where
  "refine_fails_world = stub_world (Inl (Raised ''RateLimitError'' (ascii ''quota exceeded'')))
     (Inr ()) (Inr \<lparr>status_code = 200, json_result = Inr ok_body\<rparr>)"

definition pdf_fails_world :: world where
  "pdf_fails_world = stub_world (Inr refined_sample)
     (Inl (Raised ''PermissionError'' (ascii ''Permission denied'')))
     (Inr \<lparr>status_code = 200, json_result = Inr ok_body\<rparr>)"

definition http_500_world :: world where
  "http_500_world = stub_world (Inr refined_sample) (Inr ())
     (Inr \<lparr>status_code = 500, json_result = Inl (Raised ''JSONDecodeError'' (ascii ''Expecting value''))\<rparr>)"

definition no_data_world :: world where
  "no_data_world = stub_world (Inr refined_sample) (Inr ())
     (Inr \<lparr>status_code = 200, json_result = Inr no_data_body\<rparr>)"

definition rupee_clause :: pystr where
  "rupee_clause = ascii ''The lessee'' @ [0x2019] @ ascii ''s penalty shall be '' @ [0x20B9] @ ascii ''500.''"

definition rupee_world :: world where
  "rupee_world = stub_world (Inr rupee_clause) (Inr ())
     (Inr \<lparr>status_code = 200, json_result = Inr ok_body\<rparr>)"

section \<open>Validation\<close>

lemmas eval_defs =
  validate_duration_def re_match_def re_fullmatch_def duration_re_def duration_pattern_def
  unit_group_def ascii_def is_decimal_def decimal_blocks_def is_whitespace_def
  validate_party_names_def validate_literal_def contract_types_def accept_def

lemma scenario_raw_valid: "validate_request scenario_raw = Inr scenario_request"
  by (simp add: validate_request_def scenario_raw_def scenario_request_def eval_defs)

lemma validated_scenario_request: "validated scenario_request"
  by (simp add: validated_def scenario_request_def eval_defs)

lemma field_Inr: "field name raw f = Inr v \<Longrightarrow> \<exists>u. raw = Some u \<and> f u = Inr v"
  by (cases raw) (auto split: sum.splits)

lemma validate_request_Inr:
  assumes "validate_request raw = Inr d"
  shows "field ''contract_type'' (raw_contract_type raw) validate_literal = Inr (contract_type d)"
    and "field ''party_a'' (raw_party_a raw) validate_party_names = Inr (party_a d)"
    and "field ''party_b'' (raw_party_b raw) validate_party_names = Inr (party_b d)"
    and "field ''duration'' (raw_duration raw) validate_duration = Inr (duration d)"
  using assms by (auto simp add: validate_request_def Let_def split: sum.splits)

lemma validate_party_names_Inr:
  "validate_party_names u = Inr v \<Longrightarrow> u = v \<and> 2 \<le> length v"
  by (auto simp add: validate_party_names_def split: if_splits)

lemma validate_duration_Inr: "validate_duration u = Inr v \<Longrightarrow> u = v"
  by (auto simp add: validate_duration_def split: if_splits)

lemma validate_literal_Inr:
  "validate_literal u = Inr v \<Longrightarrow> u = v \<and> v \<in> set contract_types"
  by (auto simp add: validate_literal_def split: if_splits)

text \<open>Whatever \<open>validate_request\<close> returns satisfies \<open>validated\<close>.\<close>

lemma validate_request_validated:
  assumes "validate_request raw = Inr d"
  shows "validated d"
proof -
  from validate_request_Inr(1)[OF assms] have t: "contract_type d \<in> set contract_types"
    by (auto dest!: field_Inr validate_literal_Inr)
  from validate_request_Inr(2)[OF assms]
  have a: "validate_party_names (party_a d) = Inr (party_a d)"
    by (auto dest!: field_Inr dest: validate_party_names_Inr)
  from validate_request_Inr(3)[OF assms]
  have b: "validate_party_names (party_b d) = Inr (party_b d)"
    by (auto dest!: field_Inr dest: validate_party_names_Inr)
  from validate_request_Inr(4)[OF assms]
  have u: "validate_duration (duration d) = Inr (duration d)"
    by (auto dest!: field_Inr dest: validate_duration_Inr)
  from t a b u show ?thesis by (simp add: validated_def)
qed

lemma validate_request_party_names:
  assumes "validate_request raw = Inr d"
  shows "raw_party_a raw = Some (party_a d) \<and> 2 \<le> length (party_a d) \<and>
         raw_party_b raw = Some (party_b d) \<and> 2 \<le> length (party_b d)"
proof -
  from validate_request_Inr(2)[OF assms]
  have a: "raw_party_a raw = Some (party_a d) \<and> 2 \<le> length (party_a d)"
    by (auto dest!: field_Inr dest: validate_party_names_Inr)
  from validate_request_Inr(3)[OF assms]
  have b: "raw_party_b raw = Some (party_b d) \<and> 2 \<le> length (party_b d)"
    by (auto dest!: field_Inr dest: validate_party_names_Inr)
  from a b show ?thesis by simp
qed

text \<open>
  C7. A party name that is absent is reported as missing; one that is present and shorter
  than 2 code points (the empty string included) is rejected with the validator's
  \<open>ValueError\<close>; one of length at least 2 is accepted unchanged, whatever it contains.
  Hence a request is validated only if both names were present with length at least 2.
\<close>

theorem party_names_validation:
  "field name None validate_party_names = Inl [Missing name] \<and>
   (length v < 2 \<longrightarrow>
      field name (Some v) validate_party_names =
        Inl [Invalid name
              (ascii ''Party names must be valid and at least 2 characters long'')]) \<and>
   (2 \<le> length v \<longrightarrow> field name (Some v) validate_party_names = Inr v) \<and>
   (validate_request raw = Inr d \<longrightarrow>
      raw_party_a raw = Some (party_a d) \<and> 2 \<le> length (party_a d) \<and>
      raw_party_b raw = Some (party_b d) \<and> 2 \<le> length (party_b d))"
  using validate_request_party_names [of raw d]
  by (auto simp add: validate_party_names_def)

theorem party_names_validation_witness:
  "field ''party_a'' (Some [0x41]) validate_party_names =
     Inl [Invalid ''party_a''
           (ascii ''Party names must be valid and at least 2 characters long'')] \<and>
   field ''party_b'' (Some [0x20, 0x20]) validate_party_names = Inr [0x20, 0x20] \<and>
   validate_request scenario_raw = Inr scenario_request \<and>
   2 \<le> length (party_a scenario_request) \<and> 2 \<le> length (party_b scenario_request)"
  using party_names_validation [of "''party_a''" "[0x41]" scenario_raw scenario_request]
    party_names_validation [of "''party_b''" "[0x20, 0x20]" scenario_raw scenario_request]
    scenario_raw_valid
  by simp

text \<open>The matcher and the language agree on patterns without anchors.\<close>

lemma set_plus_class:
  "set (plus_class k i s) =
    {(i + length p, t) | p t. s = p @ t \<and> p \<noteq> [] \<and> list_all (in_class k) p}"
proof (induction s arbitrary: i)
  case Nil
  then show ?case by simp
next
  case (Cons c cs)
  show ?case
  proof (cases "in_class k c")
    case False
    then show ?thesis by (auto simp add: Cons_eq_append_conv)
  next
    case True
    have "set (plus_class k i (c # cs)) = set (plus_class k (Suc i) cs) \<union> {(Suc i, cs)}"
      using True by simp
    also have "\<dots> = {(Suc i + length p, t) | p t. cs = p @ t \<and> p \<noteq> [] \<and> list_all (in_class k) p}
        \<union> {(Suc i, cs)}"
      by (simp only: Cons.IH)
    also have "\<dots> = {(i + length p, t) | p t. c # cs = p @ t \<and> p \<noteq> [] \<and> list_all (in_class k) p}"
      (is "?L = ?R")
    proof (rule set_eqI, rule iffI)
      fix x assume "x \<in> ?L"
      then consider (a) p t where "x = (Suc i + length p, t)" "cs = p @ t" "p \<noteq> []" "list_all (in_class k) p"
        | (b) "x = (Suc i, cs)" by auto
      then show "x \<in> ?R"
      proof cases
        case a
        then have "x = (i + length (c # p), t) \<and> c # cs = (c # p) @ t \<and> c # p \<noteq> [] \<and> list_all (in_class k) (c # p)"
          using True by simp
        then show ?thesis by blast
      next
        case b
        then have "x = (i + length [c], cs) \<and> c # cs = [c] @ cs \<and> [c] \<noteq> [] \<and> list_all (in_class k) [c]"
          using True by simp
        then show ?thesis by blast
      qed
    next
      fix x assume "x \<in> ?R"
      then obtain p t where x: "x = (i + length p, t)" "c # cs = p @ t" "p \<noteq> []" "list_all (in_class k) p"
        by auto
      then obtain p' where p: "p = c # p'" "cs = p' @ t" by (cases p) auto
      show "x \<in> ?L"
      proof (cases "p' = []")
        case True
        with x p show ?thesis by simp
      next
        case False
        with x p have "x = (Suc i + length p', t) \<and> cs = p' @ t \<and> p' \<noteq> [] \<and> list_all (in_class k) p'"
          by simp
        then show ?thesis by blast
      qed
    qed
    finally show ?thesis .
  qed
qed

lemma set_ends_lang:
  "anchor_free r \<Longrightarrow>
     set (ends r (i, s)) = {(i + length p, t) | p t. s = p @ t \<and> p \<in> lang r}"
proof (induction r arbitrary: i s)
  case Bol then show ?case by simp
next
  case Eol then show ?case by simp
next
  case (Lit w)
  show ?case by (auto simp add: prefix_def)
next
  case (Plus k)
  show ?case by (simp add: set_plus_class)
next
  case (Seq a b)
  then have a: "\<And>i s. set (ends a (i, s)) = {(i + length p, t) | p t. s = p @ t \<and> p \<in> lang a}"
    and b: "\<And>i s. set (ends b (i, s)) = {(i + length p, t) | p t. s = p @ t \<and> p \<in> lang b}"
    by simp_all
  show ?case
  proof (rule set_eqI, rule iffI)
    fix x assume "x \<in> set (ends (Seq a b) (i, s))"
    then obtain m where m: "m \<in> set (ends a (i, s))" "x \<in> set (ends b m)" by auto
    from m(1) obtain p t where pt: "m = (i + length p, t)" "s = p @ t" "p \<in> lang a"
      unfolding a by blast
    from m(2) obtain q u where qu: "x = (i + length p + length q, u)" "t = q @ u" "q \<in> lang b"
      unfolding pt(1) b by blast
    have "x = (i + length (p @ q), u) \<and> s = (p @ q) @ u \<and> p @ q \<in> lang (Seq a b)"
      using pt qu by auto
    then show "x \<in> {(i + length p, t) | p t. s = p @ t \<and> p \<in> lang (Seq a b)}" by blast
  next
    fix x assume "x \<in> {(i + length p, t) | p t. s = p @ t \<and> p \<in> lang (Seq a b)}"
    then obtain p q t where x: "x = (i + length (p @ q), t)" "s = (p @ q) @ t" "p \<in> lang a" "q \<in> lang b"
      by auto
    have 1: "(i + length p, q @ t) \<in> set (ends a (i, s))"
      unfolding a using x by auto
    have 2: "x \<in> set (ends b (i + length p, q @ t))"
      unfolding b using x by auto
    from 1 2 show "x \<in> set (ends (Seq a b) (i, s))" by auto
  qed
next
  case (Alt a b)
  then show ?case by auto
qed

lemma re_fullmatch_lang: "anchor_free r \<Longrightarrow> re_fullmatch r s \<longleftrightarrow> s \<in> lang r"
  by (auto simp add: re_fullmatch_def list_ex_iff set_ends_lang)

lemma set_ends_Seq: "set (ends (Seq a b) st) = (\<Union>m\<in>set (ends a st). set (ends b m))"
  by simp

lemma set_ends_Eol: "set (ends Eol m) = (if snd m = [] \<or> snd m = [0x0A] then {m} else {})"
  by (cases m) simp

lemma ends_Bol_start: "ends (Seq Bol r) (0, s) = ends r (0, s)"
  by simp

lemma ends_duration_re:
  "set (ends duration_re (0, s)) =
     {st \<in> set (ends duration_pattern (0, s)). snd st = [] \<or> snd st = [0x0A]}"
  unfolding duration_re_def duration_pattern_def ends_Bol_start
  by (auto simp add: set_ends_Seq set_ends_Eol simp del: ends.simps split: if_splits)

lemma anchor_free_duration_pattern: "anchor_free duration_pattern"
  by (simp add: duration_pattern_def unit_group_def)

lemma re_match_duration_re:
  "re_match duration_re s \<longleftrightarrow>
     s \<in> lang duration_pattern \<or> (\<exists>u. s = u @ [0x0A] \<and> u \<in> lang duration_pattern)"
proof -
  have "re_match duration_re s \<longleftrightarrow> set (ends duration_re (0, s)) \<noteq> {}"
    by (simp add: re_match_def)
  also have "\<dots> \<longleftrightarrow> (\<exists>p t. s = p @ t \<and> p \<in> lang duration_pattern \<and> (t = [] \<or> t = [0x0A]))"
    unfolding ends_duration_re set_ends_lang [OF anchor_free_duration_pattern] by auto
  also have "\<dots> \<longleftrightarrow> s \<in> lang duration_pattern \<or> (\<exists>u. s = u @ [0x0A] \<and> u \<in> lang duration_pattern)"
    by auto
  finally show ?thesis .
qed

lemma validate_duration_accepts:
  "validate_duration v = Inr v \<longleftrightarrow>
     re_fullmatch duration_pattern v \<or> (\<exists>u. v = u @ [0x0A] \<and> re_fullmatch duration_pattern u)"
  by (simp add: validate_duration_def re_match_duration_re
      re_fullmatch_lang [OF anchor_free_duration_pattern])

lemma validate_duration_examples:
  "validate_duration (ascii ''2 years'') = Inr (ascii ''2 years'') \<and>
   validate_duration (ascii ''5 weeks'') \<noteq> Inr (ascii ''5 weeks'') \<and>
   validate_duration (ascii ''abc days'') \<noteq> Inr (ascii ''abc days'') \<and>
   validate_duration [] \<noteq> Inr []"
  by (simp add: eval_defs)

text \<open>
  C1. The validator accepts every whole-string match of the pattern, but not only those:
  \<open>$\<close> also matches just before a final newline, so the duration \<open>5 years\<close> followed by a
  newline passes validation although it is no whole-string match of
  \<open>\d+\s+(year|years|month|months|day|days)\<close>. (By \<open>validate_duration_accepts\<close> a final
  newline after a whole-string match is the only such case.)
\<close>

theorem validate_duration_trailing_newline:
  "validate_duration (ascii ''5 years'' @ [0x0A]) = Inr (ascii ''5 years'' @ [0x0A]) \<and>
   \<not> re_fullmatch duration_pattern (ascii ''5 years'' @ [0x0A])"
  by (simp add: eval_defs)

section \<open>Clause retrieval: properties\<close>

text \<open>
  C2. For every query and every contract type, \<open>retrieve_clause\<close> returns (it never
  raises) the first entry of the list resolved for the type: the type's entry in the
  specialized banks when the type is nda, employment or noncompete, the default list
  otherwise. The query has no influence: any two queries give the same result.
\<close>

theorem retrieve_clause_first_entry:
  "\<exists>c cs. dict_get specialized_clause_banks t default_clauses = c # cs \<and>
     retrieve_clause q t = Inr c \<and> retrieve_clause q' t = Inr c \<and>
     (t \<in> {ascii ''nda'', ascii ''employment'', ascii ''noncompete''} \<longrightarrow>
        map_of specialized_clause_banks t = Some (c # cs)) \<and>
     (t \<notin> {ascii ''nda'', ascii ''employment'', ascii ''noncompete''} \<longrightarrow>
        c # cs = default_clauses)"
  by (simp add: retrieve_clause_def dict_get_def specialized_clause_banks_def
      default_clauses_def)

theorem retrieve_clause_first_entry_witness:
  "retrieve_clause (ascii ''confidentiality'') (ascii ''nda'') =
     Inr (ascii ''All confidential information shall remain the exclusive property of the disclosing party and shall not be used for any purpose other than the intended business collaboration.'') \<and>
   retrieve_clause (ascii ''rent'') (ascii ''lease'') =
     Inr (ascii ''This Agreement shall be governed by the laws of India and subject to the jurisdiction of courts in New Delhi.'')"
  using retrieve_clause_first_entry [of "ascii ''nda''" "ascii ''confidentiality''" "ascii ''x''"]
    retrieve_clause_first_entry [of "ascii ''lease''" "ascii ''rent''" "ascii ''y''"]
  by (simp add: dict_get_def specialized_clause_banks_def default_clauses_def ascii_def)

section \<open>Template generator: properties\<close>

lemma sublist_fstr: "V x \<in> set ps \<Longrightarrow> sublist x (fstr ps)"
proof -
  assume "V x \<in> set ps"
  then obtain a b where "ps = a @ V x # b" by (auto simp add: in_set_conv_decomp)
  then have "fstr ps = fstr a @ x @ fstr b" by (simp add: fstr_def)
  then show ?thesis unfolding sublist_def by blast
qed

lemma dict_get_in: "k \<in> fst ` set m \<Longrightarrow> dict_get m k d \<in> snd ` set m"
proof -
  assume "k \<in> fst ` set m"
  then obtain v where v: "map_of m k = Some v" by (cases "map_of m k") (auto simp add: map_of_eq_None_iff)
  then have "(k, v) \<in> set m" by (rule map_of_SomeD)
  then show ?thesis using v by (force simp add: dict_get_def)
qed

lemma dict_get_notin: "k \<notin> fst ` set m \<Longrightarrow> dict_get m k d = d"
  using map_of_eq_None_iff [of m k] by (simp add: dict_get_def)

lemma keys_legal_templates: "map fst (legal_templates d c) = contract_types"
  by (simp add: legal_templates_def contract_types_def Let_def)

lemma all_templates_contain:
  "\<forall>t \<in> snd ` set (legal_templates d c).
     sublist (party_a d) t \<and> sublist (party_b d) t \<and> sublist (duration d) t \<and>
     sublist c t \<and> sublist (jurisdiction d) t"
  by (simp add: legal_templates_def Let_def sublist_fstr)

lemma all_templates_not_sentinel:
  "\<forall>t \<in> snd ` set (legal_templates d c). t \<noteq> invalid_contract_type"
  by (simp add: legal_templates_def Let_def invalid_contract_type_def fstr_def ascii_def)

lemma keys_image: "fst ` set (legal_templates d c) = set contract_types"
proof -
  have "fst ` set (legal_templates d c) = set (map fst (legal_templates d c))"
    by simp
  then show ?thesis by (simp only: keys_legal_templates)
qed

lemma template_in:
  "contract_type d \<in> set contract_types \<Longrightarrow>
     get_legal_template d c \<in> snd ` set (legal_templates d c)"
  unfolding get_legal_template_def
  by (rule dict_get_in) (simp only: keys_image)

lemma validated_lease_request: "validated lease_request"
  by (simp add: validated_def lease_request_def eval_defs)

text \<open>
  C3. The template generator is a function of the request and the clause (equal inputs
  give equal output), and for every validated request its output contains both party
  names, the duration, the refined clause and the jurisdiction, each as a contiguous
  substring.
\<close>

theorem get_legal_template_contains:
  "validated d \<Longrightarrow>
     sublist (party_a d) (get_legal_template d c) \<and>
     sublist (party_b d) (get_legal_template d c) \<and>
     sublist (duration d) (get_legal_template d c) \<and>
     sublist c (get_legal_template d c) \<and>
     sublist (jurisdiction d) (get_legal_template d c) \<and>
     (d' = d \<and> c' = c \<longrightarrow> get_legal_template d' c' = get_legal_template d c)"
  using all_templates_contain [of d c] template_in [of d c]
  by (auto simp add: validated_def)

theorem get_legal_template_contains_witness:
  "validated scenario_request \<and>
   sublist (ascii ''Acme Inc'') (get_legal_template scenario_request refined_sample) \<and>
   sublist (ascii ''Beta LLC'') (get_legal_template scenario_request refined_sample) \<and>
   sublist (ascii ''2 years'') (get_legal_template scenario_request refined_sample) \<and>
   sublist refined_sample (get_legal_template scenario_request refined_sample) \<and>
   sublist (ascii ''New Delhi'') (get_legal_template scenario_request refined_sample)"
proof -
  have f: "party_a scenario_request = ascii ''Acme Inc''"
    "party_b scenario_request = ascii ''Beta LLC''"
    "duration scenario_request = ascii ''2 years''"
    "jurisdiction scenario_request = ascii ''New Delhi''"
    by (simp_all add: scenario_request_def)
  from get_legal_template_contains [OF validated_scenario_request, of refined_sample]
  show ?thesis by (simp add: f validated_scenario_request)
qed

text \<open>
  C8. For a lease request without a property address the generator returns the lease
  text (it cannot raise, and the result is not the sentinel): the text is given below
  piece by piece. Its property line consists of the code points of \<open>1. Property: None\<close>
  between two line breaks: the absent value is rendered as the text \<open>None\<close>.
\<close>

theorem lease_without_property_address:
  "contract_type d = ascii ''lease'' \<Longrightarrow> property_address d = None \<Longrightarrow>
   get_legal_template d c =
     ascii ''LEASE AGREEMENT'' @ [0x0A, 0x0A] @
     ascii ''This agreement is made between '' @ party_a d @ ascii '' (Lessor) and '' @
     party_b d @ ascii '' (Lessee).'' @ [0x0A, 0x0A] @
     [0x31, 0x2E, 0x20, 0x50, 0x72, 0x6F, 0x70, 0x65, 0x72, 0x74, 0x79, 0x3A, 0x20, 0x4E, 0x6F, 0x6E, 0x65] @
     [0x0A] @
     ascii ''2. Duration: '' @ duration d @ [0x0A] @
     ascii ''3. Legal Clause: '' @ c @ [0x0A] @
     ascii ''4. Jurisdiction: '' @ jurisdiction d @ [0x0A, 0x0A] @
     ascii ''Signed: '' @ party_a d @ ascii '', '' @ party_b d \<and>
   sublist
     ([0x0A] @
      [0x31, 0x2E, 0x20, 0x50, 0x72, 0x6F, 0x70, 0x65, 0x72, 0x74, 0x79, 0x3A, 0x20, 0x4E, 0x6F, 0x6E, 0x65] @
      [0x0A])
     (get_legal_template d c) \<and>
   get_legal_template d c \<noteq> invalid_contract_type"
proof -
  assume t: "contract_type d = ascii ''lease''" and p: "property_address d = None"
  let ?line = "[0x31, 0x2E, 0x20, 0x50, 0x72, 0x6F, 0x70, 0x65, 0x72, 0x74, 0x79, 0x3A, 0x20, 0x4E, 0x6F, 0x6E, 0x65]"
  let ?pre = "ascii ''LEASE AGREEMENT'' @ [0x0A, 0x0A] @
     ascii ''This agreement is made between '' @ party_a d @ ascii '' (Lessor) and '' @
     party_b d @ ascii '' (Lessee).'' @ [0x0A]"
  let ?post = "ascii ''2. Duration: '' @ duration d @ [0x0A] @
     ascii ''3. Legal Clause: '' @ c @ [0x0A] @
     ascii ''4. Jurisdiction: '' @ jurisdiction d @ [0x0A, 0x0A] @
     ascii ''Signed: '' @ party_a d @ ascii '', '' @ party_b d"
  from t p have e: "get_legal_template d c = ?pre @ ([0x0A] @ ?line @ [0x0A]) @ ?post"
    by (simp add: get_legal_template_def legal_templates_def dict_get_def Let_def fstr_def
        ascii_def)
  then have s: "sublist ([0x0A] @ ?line @ [0x0A]) (get_legal_template d c)"
    unfolding sublist_def by blast
  from e have n: "get_legal_template d c \<noteq> invalid_contract_type"
    by (simp add: invalid_contract_type_def ascii_def)
  from e s n show ?thesis by simp
qed

theorem lease_without_property_address_witness:
  "validated lease_request \<and>
   get_legal_template lease_request refined_sample =
     [0x4C, 0x45, 0x41, 0x53, 0x45, 0x20, 0x41, 0x47, 0x52, 0x45, 0x45, 0x4D, 0x45,
      0x4E, 0x54, 0x0A, 0x0A, 0x54, 0x68, 0x69, 0x73, 0x20, 0x61, 0x67, 0x72, 0x65,
      0x65, 0x6D, 0x65, 0x6E, 0x74, 0x20, 0x69, 0x73, 0x20, 0x6D, 0x61, 0x64, 0x65,
      0x20, 0x62, 0x65, 0x74, 0x77, 0x65, 0x65, 0x6E, 0x20, 0x41, 0x73, 0x68, 0x61,
      0x20, 0x52, 0x61, 0x6F, 0x20, 0x28, 0x4C, 0x65, 0x73, 0x73, 0x6F, 0x72, 0x29,
      0x20, 0x61, 0x6E, 0x64, 0x20, 0x56, 0x69, 0x6B, 0x72, 0x61, 0x6D, 0x20, 0x4D,
      0x65, 0x68, 0x74, 0x61, 0x20, 0x28, 0x4C, 0x65, 0x73, 0x73, 0x65, 0x65, 0x29,
      0x2E, 0x0A, 0x0A, 0x31, 0x2E, 0x20, 0x50, 0x72, 0x6F, 0x70, 0x65, 0x72, 0x74,
      0x79, 0x3A, 0x20, 0x4E, 0x6F, 0x6E, 0x65, 0x0A, 0x32, 0x2E, 0x20, 0x44, 0x75,
      0x72, 0x61, 0x74, 0x69, 0x6F, 0x6E, 0x3A, 0x20, 0x31, 0x31, 0x20, 0x6D, 0x6F,
      0x6E, 0x74, 0x68, 0x73, 0x0A, 0x33, 0x2E, 0x20, 0x4C, 0x65, 0x67, 0x61, 0x6C,
      0x20, 0x43, 0x6C, 0x61, 0x75, 0x73, 0x65, 0x3A, 0x20, 0x43, 0x6F, 0x6E, 0x66,
      0x69, 0x64, 0x65, 0x6E, 0x74, 0x69, 0x61, 0x6C, 0x20, 0x69, 0x6E, 0x66, 0x6F,
      0x72, 0x6D, 0x61, 0x74, 0x69, 0x6F, 0x6E, 0x20, 0x73, 0x68, 0x61, 0x6C, 0x6C,
      0x20, 0x62, 0x65, 0x20, 0x70, 0x72, 0x6F, 0x74, 0x65, 0x63, 0x74, 0x65, 0x64,
      0x2E, 0x0A, 0x34, 0x2E, 0x20, 0x4A, 0x75, 0x72, 0x69, 0x73, 0x64, 0x69, 0x63,
      0x74, 0x69, 0x6F, 0x6E, 0x3A, 0x20, 0x4E, 0x65, 0x77, 0x20, 0x44, 0x65, 0x6C,
      0x68, 0x69, 0x0A, 0x0A, 0x53, 0x69, 0x67, 0x6E, 0x65, 0x64, 0x3A, 0x20, 0x41,
      0x73, 0x68, 0x61, 0x20, 0x52, 0x61, 0x6F, 0x2C, 0x20, 0x56, 0x69, 0x6B, 0x72,
      0x61, 0x6D, 0x20, 0x4D, 0x65, 0x68, 0x74, 0x61]"
proof -
  have t: "contract_type lease_request = ascii ''lease''"
    and p: "property_address lease_request = None"
    by (simp_all add: lease_request_def)
  from lease_without_property_address [OF t p, of refined_sample]
  have "get_legal_template lease_request refined_sample =
     [0x4C, 0x45, 0x41, 0x53, 0x45, 0x20, 0x41, 0x47, 0x52, 0x45, 0x45, 0x4D, 0x45,
      0x4E, 0x54, 0x0A, 0x0A, 0x54, 0x68, 0x69, 0x73, 0x20, 0x61, 0x67, 0x72, 0x65,
      0x65, 0x6D, 0x65, 0x6E, 0x74, 0x20, 0x69, 0x73, 0x20, 0x6D, 0x61, 0x64, 0x65,
      0x20, 0x62, 0x65, 0x74, 0x77, 0x65, 0x65, 0x6E, 0x20, 0x41, 0x73, 0x68, 0x61,
      0x20, 0x52, 0x61, 0x6F, 0x20, 0x28, 0x4C, 0x65, 0x73, 0x73, 0x6F, 0x72, 0x29,
      0x20, 0x61, 0x6E, 0x64, 0x20, 0x56, 0x69, 0x6B, 0x72, 0x61, 0x6D, 0x20, 0x4D,
      0x65, 0x68, 0x74, 0x61, 0x20, 0x28, 0x4C, 0x65, 0x73, 0x73, 0x65, 0x65, 0x29,
      0x2E, 0x0A, 0x0A, 0x31, 0x2E, 0x20, 0x50, 0x72, 0x6F, 0x70, 0x65, 0x72, 0x74,
      0x79, 0x3A, 0x20, 0x4E, 0x6F, 0x6E, 0x65, 0x0A, 0x32, 0x2E, 0x20, 0x44, 0x75,
      0x72, 0x61, 0x74, 0x69, 0x6F, 0x6E, 0x3A, 0x20, 0x31, 0x31, 0x20, 0x6D, 0x6F,
      0x6E, 0x74, 0x68, 0x73, 0x0A, 0x33, 0x2E, 0x20, 0x4C, 0x65, 0x67, 0x61, 0x6C,
      0x20, 0x43, 0x6C, 0x61, 0x75, 0x73, 0x65, 0x3A, 0x20, 0x43, 0x6F, 0x6E, 0x66,
      0x69, 0x64, 0x65, 0x6E, 0x74, 0x69, 0x61, 0x6C, 0x20, 0x69, 0x6E, 0x66, 0x6F,
      0x72, 0x6D, 0x61, 0x74, 0x69, 0x6F, 0x6E, 0x20, 0x73, 0x68, 0x61, 0x6C, 0x6C,
      0x20, 0x62, 0x65, 0x20, 0x70, 0x72, 0x6F, 0x74, 0x65, 0x63, 0x74, 0x65, 0x64,
      0x2E, 0x0A, 0x34, 0x2E, 0x20, 0x4A, 0x75, 0x72, 0x69, 0x73, 0x64, 0x69, 0x63,
      0x74, 0x69, 0x6F, 0x6E, 0x3A, 0x20, 0x4E, 0x65, 0x77, 0x20, 0x44, 0x65, 0x6C,
      0x68, 0x69, 0x0A, 0x0A, 0x53, 0x69, 0x67, 0x6E, 0x65, 0x64, 0x3A, 0x20, 0x41,
      0x73, 0x68, 0x61, 0x20, 0x52, 0x61, 0x6F, 0x2C, 0x20, 0x56, 0x69, 0x6B, 0x72,
      0x61, 0x6D, 0x20, 0x4D, 0x65, 0x68, 0x74, 0x61]"
    by (simp add: lease_request_def refined_sample_def ascii_def)
  with validated_lease_request show ?thesis by (rule conjI)
qed

text \<open>
  C9. For a contract type outside the nine known ones the generator returns the sentinel
  \<open>Invalid contract type.\<close> (it does not raise); for a validated request it never
  returns the sentinel.
\<close>

theorem invalid_type_sentinel:
  "(contract_type d \<notin> set contract_types \<longrightarrow>
      get_legal_template d c = invalid_contract_type) \<and>
   (validated d \<longrightarrow> get_legal_template d c \<noteq> invalid_contract_type)"
proof (intro conjI impI)
  assume "contract_type d \<notin> set contract_types"
  then have "contract_type d \<notin> fst ` set (legal_templates d c)"
    by (simp only: keys_image not_False_eq_True)
  then show "get_legal_template d c = invalid_contract_type"
    unfolding get_legal_template_def by (rule dict_get_notin)
next
  assume "validated d"
  then show "get_legal_template d c \<noteq> invalid_contract_type"
    using all_templates_not_sentinel [of d c] template_in [of d c]
    by (auto simp add: validated_def)
qed

theorem invalid_type_sentinel_witness:
  "get_legal_template will_request refined_sample = ascii ''Invalid contract type.'' \<and>
   get_legal_template scenario_request refined_sample \<noteq> ascii ''Invalid contract type.''"
proof -
  have "contract_type will_request \<notin> set contract_types"
    by (simp add: will_request_def scenario_request_def contract_types_def ascii_def)
  with invalid_type_sentinel [of will_request refined_sample]
    invalid_type_sentinel [of scenario_request refined_sample] validated_scenario_request
  show ?thesis by (simp add: invalid_contract_type_def)
qed

section \<open>PDF export: properties\<close>

lemma py_replace_single:
  "py_replace s [c] new = concat (map (\<lambda>x. if x = c then new else [x]) s)"
  by (induction s) auto

lemma concat_map_concat_map:
  "concat (map f (concat (map g s))) = concat (map (\<lambda>x. concat (map f (g x))) s)"
  by (induction s) simp_all

lemma normalize_content_eq:
  "normalize_content s = concat (map normalize_char s)"
proof -
  have "normalize_content s =
    concat (map (\<lambda>x. concat (map (\<lambda>x. if x = 0x20B9 then ascii ''Rs.'' else [x])
      (concat (map (\<lambda>x. if x = 0x201D then [0x22] else [x])
        (concat (map (\<lambda>x. if x = 0x201C then [0x22] else [x])
          (if x = 0x2019 then [0x27] else [x]))))))) s)"
    by (simp only: normalize_content_def py_replace_single concat_map_concat_map)
  also have "\<dots> = concat (map normalize_char s)"
    by (rule arg_cong [where f = concat], rule map_cong, rule refl)
       (simp add: normalize_char_def ascii_def)
  finally show ?thesis .
qed


text \<open>
  C4. The normalization before rendering acts on each code point by itself: a right single
  quotation mark becomes an apostrophe, a left or right double quotation mark a double
  quote, a rupee sign the three characters \<open>Rs.\<close>, and every other code point is kept, in
  the order of the input.
\<close>

theorem normalize_content_pointwise:
  "normalize_content s = concat (map normalize_char s)"
  by (rule normalize_content_eq)

theorem normalize_content_pointwise_witness:
  "normalize_content
     ([0x201C] @ ascii ''Fee'' @ [0x201D, 0x20B9] @ ascii ''500, lessee'' @ [0x2019] @ ascii ''s'') =
   [0x22] @ ascii ''Fee'' @ [0x22] @ ascii ''Rs.500, lessee'' @ [0x27] @ ascii ''s''"
  using normalize_content_pointwise
    [of "[0x201C] @ ascii ''Fee'' @ [0x201D, 0x20B9] @ ascii ''500, lessee'' @ [0x2019] @ ascii ''s''"]
  by (simp add: normalize_char_def ascii_def)

section \<open>The endpoint: properties\<close>

lemma and_then_Inr: "and_then m f = Inr y \<longleftrightarrow> (\<exists>x. m = Inr x \<and> f x = Inr y)"
  by (cases m) simp_all

lemma method_get_ok:
  "method_get v k = Inr (JStr s) \<longleftrightarrow> (\<exists>kvs. v = JObj kvs \<and> map_of kvs k = Some (JStr s))"
  by (cases v) (auto split: option.splits)

lemma subscript_Inr:
  "subscript v k = Inr x \<longleftrightarrow> (\<exists>kvs. v = JObj kvs \<and> map_of kvs k = Some x)"
  by (cases v) (auto split: option.splits)

lemma upload_Inr:
  "upload w fn = Inr url \<longleftrightarrow>
     open_rb w fn = Inr () \<and>
     (\<exists>r body dat. requests_post w fn = Inr r \<and> status_code r = 200 \<and>
        json_result r = Inr (JObj body) \<and>
        map_of body (ascii ''status'') = Some (JStr (ascii ''ok'')) \<and>
        map_of body (ascii ''data'') = Some (JObj dat) \<and>
        map_of dat (ascii ''downloadPage'') = Some url)"
  (is "?L \<longleftrightarrow> ?R")
proof
  assume ?L
  then obtain f r where o: "open_rb w fn = Inr f" and p: "requests_post w fn = Inr r"
    and rest: "(if status_code r \<noteq> 200
      then Inl (Raised ''Exception'' (ascii ''Upload failed: '' @ str_int (status_code r)))
      else and_then (json_result r) (\<lambda>res_json.
        and_then (method_get res_json (ascii ''status'')) (\<lambda>st.
          if st \<noteq> JStr (ascii ''ok'')
          then Inl (Raised ''Exception'' (ascii ''Gofile error: '' @ py_repr w res_json))
          else and_then (subscript res_json (ascii ''data'')) (\<lambda>dat.
            subscript dat (ascii ''downloadPage''))))) = Inr url"
    unfolding upload_def and_then_Inr by blast
  from rest have s: "status_code r = 200" by (auto split: if_splits)
  with rest obtain res_json st where j: "json_result r = Inr res_json"
    and g: "method_get res_json (ascii ''status'') = Inr st"
    and rest2: "(if st \<noteq> JStr (ascii ''ok'')
          then Inl (Raised ''Exception'' (ascii ''Gofile error: '' @ py_repr w res_json))
          else and_then (subscript res_json (ascii ''data'')) (\<lambda>dat.
            subscript dat (ascii ''downloadPage''))) = Inr url"
    by (auto simp add: and_then_Inr)
  from rest2 have st: "st = JStr (ascii ''ok'')" by (auto split: if_splits)
  with rest2 obtain dat where d: "subscript res_json (ascii ''data'') = Inr dat"
    and u: "subscript dat (ascii ''downloadPage'') = Inr url"
    by (auto simp add: and_then_Inr)
  from g st obtain body where b: "res_json = JObj body"
    "map_of body (ascii ''status'') = Some (JStr (ascii ''ok''))"
    by (auto simp add: method_get_ok)
  from d b have d': "map_of body (ascii ''data'') = Some dat"
    by (simp split: option.splits)
  from u obtain dkv where dk: "dat = JObj dkv" "map_of dkv (ascii ''downloadPage'') = Some url"
    by (auto simp add: subscript_Inr)
  from o p s j b d' dk show ?R by auto
next
  assume ?R
  then obtain r body dat where "open_rb w fn = Inr ()" "requests_post w fn = Inr r"
    "status_code r = 200" "json_result r = Inr (JObj body)"
    "map_of body (ascii ''status'') = Some (JStr (ascii ''ok''))"
    "map_of body (ascii ''data'') = Some (JObj dat)"
    "map_of dat (ascii ''downloadPage'') = Some url" by blast
  then show ?L by (simp add: upload_def)
qed

lemma upload_not_200:
  "open_rb w fn = Inr () \<Longrightarrow> requests_post w fn = Inr r \<Longrightarrow> status_code r \<noteq> 200 \<Longrightarrow>
   upload w fn = Inl (Raised ''Exception'' (ascii ''Upload failed: '' @ str_int (status_code r)))"
  by (simp add: upload_def)

lemma upload_not_ok:
  "open_rb w fn = Inr () \<Longrightarrow> requests_post w fn = Inr r \<Longrightarrow> status_code r = 200 \<Longrightarrow>
   json_result r = Inr body \<Longrightarrow> method_get body (ascii ''status'') \<noteq> Inr (JStr (ascii ''ok'')) \<Longrightarrow>
   \<exists>e. upload w fn = Inl e"
  by (cases "method_get body (ascii ''status'')") (auto simp add: upload_def)

lemma try_Inr:
  "generate_contract_try w d = Inr r \<longleftrightarrow>
    (\<exists>rc c url. retrieve_clause (clause_query d) (contract_type d) = Inr rc \<and>
       refine_clause_with_legal_expertise w rc (contract_type d) = Inr c \<and>
       save_as_pdf w (get_legal_template d c) (uuid4_hex w @ ascii ''.pdf'') = Inr () \<and>
       upload w (uuid4_hex w @ ascii ''.pdf'') = Inr url \<and>
       r = \<lparr>message = ascii ''Contract generated and uploaded.'',
            contract = get_legal_template d c, pdf_url = url\<rparr>)"
  by (auto simp add: generate_contract_try_def and_then_Inr Let_def)

lemma generate_contract_Inr: "generate_contract w d = Inr r \<longleftrightarrow> generate_contract_try w d = Inr r"
  by (simp add: generate_contract_def split: sum.splits)

lemma generate_contract_Inl:
  "generate_contract w d = Inl h \<longleftrightarrow>
    (\<exists>e. generate_contract_try w d = Inl e \<and>
       h = HTTPException 400 (ascii ''Contract generation failed: '' @ str_exn e))"
  by (auto simp add: generate_contract_def split: sum.splits)

lemma try_stage_refine:
  "retrieve_clause (clause_query d) (contract_type d) = Inr rc \<Longrightarrow>
   refine_clause_with_legal_expertise w rc (contract_type d) = Inl e \<Longrightarrow>
   generate_contract_try w d = Inl e"
  by (simp add: generate_contract_try_def)

lemma try_stage_pdf:
  "retrieve_clause (clause_query d) (contract_type d) = Inr rc \<Longrightarrow>
   refine_clause_with_legal_expertise w rc (contract_type d) = Inr c \<Longrightarrow>
   save_as_pdf w (get_legal_template d c) (uuid4_hex w @ ascii ''.pdf'') = Inl e \<Longrightarrow>
   generate_contract_try w d = Inl e"
  by (simp add: generate_contract_try_def Let_def)

lemma try_stage_upload:
  "retrieve_clause (clause_query d) (contract_type d) = Inr rc \<Longrightarrow>
   refine_clause_with_legal_expertise w rc (contract_type d) = Inr c \<Longrightarrow>
   save_as_pdf w (get_legal_template d c) (uuid4_hex w @ ascii ''.pdf'') = Inr () \<Longrightarrow>
   upload w (uuid4_hex w @ ascii ''.pdf'') = Inl e \<Longrightarrow>
   generate_contract_try w d = Inl e"
  by (simp add: generate_contract_try_def Let_def)

lemmas world_defs = stub_world_def ok_world_def refine_fails_world_def pdf_fails_world_def
  http_500_world_def no_data_world_def rupee_world_def

lemma retrieve_scen: "retrieve_clause (clause_query scenario_request) (contract_type scenario_request) =
   Inr (ascii ''All confidential information shall remain the exclusive property of the disclosing party and shall not be used for any purpose other than the intended business collaboration.'')"
  by (simp add: retrieve_clause_def dict_get_def specialized_clause_banks_def scenario_request_def ascii_def)

lemma scen_type: "contract_type scenario_request \<in> set contract_types"
  by (simp add: scenario_request_def contract_types_def ascii_def)

lemma refine_stub: "ctype \<in> set contract_types \<Longrightarrow>
  refine_clause_with_legal_expertise (stub_world a b c) clause ctype = a"
  by (simp add: refine_clause_with_legal_expertise_def stub_world_def)

lemma save_stub: "save_as_pdf (stub_world a b c) content fn = b"
  by (simp add: save_as_pdf_def stub_world_def)

lemma uuid_stub: "uuid4_hex (stub_world a b c) @ ascii ''.pdf'' = stub_filename"
  by (simp add: stub_world_def stub_filename_def ascii_def)

lemma upload_ok: "upload (stub_world a b (Inr \<lparr>status_code = 200, json_result = Inr ok_body\<rparr>)) fn =
  Inr (JStr (ascii ''https://example/x''))"
  by (simp add: upload_def stub_world_def ok_body_def ascii_def)

lemma upload_500: "upload http_500_world fn = Inl (Raised ''Exception'' (ascii ''Upload failed: 500''))"
  by (simp add: upload_def world_defs str_int_def ascii_def)

lemma upload_no_data: "upload no_data_world fn = Inl (Raised ''KeyError'' ([0x27] @ ascii ''data'' @ [0x27]))"
  by (simp add: upload_def world_defs no_data_body_def ascii_def)

lemma gen_ok: "generate_contract ok_world scenario_request =
  Inr \<lparr>message = ascii ''Contract generated and uploaded.'',
       contract = get_legal_template scenario_request refined_sample,
       pdf_url = JStr (ascii ''https://example/x'')\<rparr>"
  by (simp add: generate_contract_def generate_contract_try_def retrieve_scen ok_world_def
      refine_stub [OF scen_type] save_stub uuid_stub upload_ok Let_def)

lemma gen_500: "generate_contract http_500_world scenario_request =
  Inl (HTTPException 400 (ascii ''Contract generation failed: Upload failed: 500''))"
  unfolding generate_contract_def generate_contract_try_def retrieve_scen
  by (simp add: upload_500 Let_def)
     (simp add: http_500_world_def refine_stub [OF scen_type] save_stub ascii_def)

lemma refine_scen:
  "refine_clause_with_legal_expertise (stub_world a b c) rc (contract_type scenario_request) = a"
  by (rule refine_stub [OF scen_type])

text \<open>
  C5. The exceptions modelled are the instances of \<open>Exception\<close>, which is what the
  interpreter and the libraries raise in these steps. Whenever the handler fails, the
  failure is an \<open>HTTPException\<close> with status 400 whose detail is
  \<open>Contract generation failed: \<close> followed by \<open>str(e)\<close> of the exception that ended the
  \<open>try\<close> block, and no response with \<open>contract\<close> or \<open>pdf_url\<close> is returned. An exception
  of the refinement, of writing the PDF (rendering, file output) or of the upload (opening
  the file, the request, the checks on the response) ends the block and is reported in this
  form. Clause retrieval and the template generator cannot raise.
\<close>

theorem failures_are_uniform:
  "(generate_contract w d = Inl h \<longrightarrow>
      (\<exists>e. generate_contract_try w d = Inl e \<and>
           h = HTTPException 400 (ascii ''Contract generation failed: '' @ str_exn e)) \<and>
      exc_status_code h = 400 \<and>
      prefix (ascii ''Contract generation failed: '') (detail h) \<and>
      (\<forall>r. generate_contract w d \<noteq> Inr r)) \<and>
   (retrieve_clause (clause_query d) (contract_type d) = Inr rc \<and>
    refine_clause_with_legal_expertise w rc (contract_type d) = Inl e \<longrightarrow>
      generate_contract w d =
        Inl (HTTPException 400 (ascii ''Contract generation failed: '' @ str_exn e))) \<and>
   (retrieve_clause (clause_query d) (contract_type d) = Inr rc \<and>
    refine_clause_with_legal_expertise w rc (contract_type d) = Inr c \<and>
    save_as_pdf w (get_legal_template d c) (uuid4_hex w @ ascii ''.pdf'') = Inl e \<longrightarrow>
      generate_contract w d =
        Inl (HTTPException 400 (ascii ''Contract generation failed: '' @ str_exn e))) \<and>
   (retrieve_clause (clause_query d) (contract_type d) = Inr rc \<and>
    refine_clause_with_legal_expertise w rc (contract_type d) = Inr c \<and>
    save_as_pdf w (get_legal_template d c) (uuid4_hex w @ ascii ''.pdf'') = Inr () \<and>
    upload w (uuid4_hex w @ ascii ''.pdf'') = Inl e \<longrightarrow>
      generate_contract w d =
        Inl (HTTPException 400 (ascii ''Contract generation failed: '' @ str_exn e)))"
proof (intro conjI impI)
  assume h: "generate_contract w d = Inl h"
  then show "\<exists>e. generate_contract_try w d = Inl e \<and>
           h = HTTPException 400 (ascii ''Contract generation failed: '' @ str_exn e)"
    by (simp add: generate_contract_Inl)
  then show "exc_status_code h = 400" by auto
  from h show "prefix (ascii ''Contract generation failed: '') (detail h)"
    by (auto simp add: generate_contract_Inl)
  from h show "\<forall>r. generate_contract w d \<noteq> Inr r" by simp
next
  assume "retrieve_clause (clause_query d) (contract_type d) = Inr rc \<and>
    refine_clause_with_legal_expertise w rc (contract_type d) = Inl e"
  then have "generate_contract_try w d = Inl e" by (auto intro: try_stage_refine)
  then show "generate_contract w d =
        Inl (HTTPException 400 (ascii ''Contract generation failed: '' @ str_exn e))"
    by (simp add: generate_contract_def)
next
  assume "retrieve_clause (clause_query d) (contract_type d) = Inr rc \<and>
    refine_clause_with_legal_expertise w rc (contract_type d) = Inr c \<and>
    save_as_pdf w (get_legal_template d c) (uuid4_hex w @ ascii ''.pdf'') = Inl e"
  then have "generate_contract_try w d = Inl e" by (auto intro: try_stage_pdf)
  then show "generate_contract w d =
        Inl (HTTPException 400 (ascii ''Contract generation failed: '' @ str_exn e))"
    by (simp add: generate_contract_def)
next
  assume "retrieve_clause (clause_query d) (contract_type d) = Inr rc \<and>
    refine_clause_with_legal_expertise w rc (contract_type d) = Inr c \<and>
    save_as_pdf w (get_legal_template d c) (uuid4_hex w @ ascii ''.pdf'') = Inr () \<and>
    upload w (uuid4_hex w @ ascii ''.pdf'') = Inl e"
  then have "generate_contract_try w d = Inl e" by (auto intro: try_stage_upload)
  then show "generate_contract w d =
        Inl (HTTPException 400 (ascii ''Contract generation failed: '' @ str_exn e))"
    by (simp add: generate_contract_def)
qed

theorem failures_are_uniform_witness:
  "generate_contract refine_fails_world scenario_request =
     Inl (HTTPException 400 (ascii ''Contract generation failed: quota exceeded'')) \<and>
   generate_contract pdf_fails_world scenario_request =
     Inl (HTTPException 400 (ascii ''Contract generation failed: Permission denied'')) \<and>
   generate_contract http_500_world scenario_request =
     Inl (HTTPException 400 (ascii ''Contract generation failed: Upload failed: 500'')) \<and>
   prefix (ascii ''Contract generation failed: '')
     (ascii ''Contract generation failed: Upload failed: 500'')"
proof -
  have 1: "generate_contract refine_fails_world scenario_request =
     Inl (HTTPException 400 (ascii ''Contract generation failed: quota exceeded''))"
    using failures_are_uniform [where w = refine_fails_world and d = scenario_request
        and e = "Raised ''RateLimitError'' (ascii ''quota exceeded'')"]
      retrieve_scen
    by (simp add: refine_fails_world_def refine_scen ascii_def)
  have 2: "generate_contract pdf_fails_world scenario_request =
     Inl (HTTPException 400 (ascii ''Contract generation failed: Permission denied''))"
    using failures_are_uniform [where w = pdf_fails_world and d = scenario_request
        and e = "Raised ''PermissionError'' (ascii ''Permission denied'')"
        and c = refined_sample]
      retrieve_scen
    by (simp add: pdf_fails_world_def refine_scen save_stub ascii_def)
  have u: "uuid4_hex http_500_world @ ascii ''.pdf'' = stub_filename"
    by (simp add: http_500_world_def uuid_stub)
  have 3: "generate_contract http_500_world scenario_request =
     Inl (HTTPException 400 (ascii ''Contract generation failed: Upload failed: 500''))"
    using failures_are_uniform [where w = http_500_world and d = scenario_request
        and e = "Raised ''Exception'' (ascii ''Upload failed: 500'')"
        and c = refined_sample]
      retrieve_scen upload_500 [of stub_filename]
    by (simp add: u) (simp add: http_500_world_def refine_scen save_stub ascii_def)
  from failures_are_uniform [where w = http_500_world and d = scenario_request
      and h = "HTTPException 400 (ascii ''Contract generation failed: Upload failed: 500'')"] 3
  have 4: "prefix (ascii ''Contract generation failed: '')
     (ascii ''Contract generation failed: Upload failed: 500'')"
    by simp
  from 1 2 3 4 show ?thesis by simp
qed

text \<open>
  C6 as stated does not hold: a response with status code 200 whose body has the status
  \<open>ok\<close> but no \<open>data\<close> entry makes the upload fail with \<open>KeyError\<close>, although
  neither of the two conditions of the claim is met.
\<close>

theorem upload_missing_data_counterexample:
  "requests_post no_data_world stub_filename =
     Inr \<lparr>status_code = 200, json_result = Inr no_data_body\<rparr> \<and>
   method_get no_data_body (ascii ''status'') = Inr (JStr (ascii ''ok'')) \<and>
   upload no_data_world stub_filename =
     Inl (Raised ''KeyError'' ([0x27] @ ascii ''data'' @ [0x27])) \<and>
   generate_contract no_data_world scenario_request =
     Inl (HTTPException 400 (ascii ''Contract generation failed: '' @ [0x27] @ ascii ''data'' @ [0x27]))"
proof -
  have 1: "requests_post no_data_world stub_filename =
     Inr \<lparr>status_code = 200, json_result = Inr no_data_body\<rparr>"
    by (simp add: world_defs)
  have 2: "method_get no_data_body (ascii ''status'') = Inr (JStr (ascii ''ok''))"
    by (simp add: no_data_body_def ascii_def)
  have u: "uuid4_hex no_data_world @ ascii ''.pdf'' = stub_filename"
    by (simp add: no_data_world_def uuid_stub)
  have "generate_contract_try no_data_world scenario_request =
     Inl (Raised ''KeyError'' ([0x27] @ ascii ''data'' @ [0x27]))"
    by (rule try_stage_upload [where rc = "ascii ''All confidential information shall remain the exclusive property of the disclosing party and shall not be used for any purpose other than the intended business collaboration.''" and c = refined_sample])
       (simp_all add: retrieve_scen u upload_no_data, simp_all add: no_data_world_def refine_scen save_stub)
  then have 4: "generate_contract no_data_world scenario_request =
     Inl (HTTPException 400 (ascii ''Contract generation failed: '' @ [0x27] @ ascii ''data'' @ [0x27]))"
    by (simp add: generate_contract_def)
  from 1 2 upload_no_data [of stub_filename] 4 show ?thesis by simp
qed

text \<open>
  C6, amended. The upload succeeds exactly when the file opens, the request returns a
  response with status code 200, the body decodes to an object whose \<open>status\<close> is
  \<open>ok\<close> and whose \<open>data\<close> is an object with a \<open>downloadPage\<close> entry; the result is
  that entry, and it is the \<open>pdf_url\<close> of a successful response. A status code other than
  200 fails with \<open>Upload failed: \<close> and the code, which the handler reports in its detail
  string; a body whose status is not \<open>ok\<close> fails as well.
\<close>

theorem upload_outcome:
  "(upload w fn = Inr url \<longleftrightarrow>
      open_rb w fn = Inr () \<and>
      (\<exists>r body dat. requests_post w fn = Inr r \<and> status_code r = 200 \<and>
         json_result r = Inr (JObj body) \<and>
         map_of body (ascii ''status'') = Some (JStr (ascii ''ok'')) \<and>
         map_of body (ascii ''data'') = Some (JObj dat) \<and>
         map_of dat (ascii ''downloadPage'') = Some url)) \<and>
   (open_rb w fn = Inr () \<and> requests_post w fn = Inr r \<and> status_code r \<noteq> 200 \<longrightarrow>
      upload w fn =
        Inl (Raised ''Exception'' (ascii ''Upload failed: '' @ str_int (status_code r)))) \<and>
   (open_rb w fn = Inr () \<and> requests_post w fn = Inr r \<and> status_code r = 200 \<and>
    json_result r = Inr body \<and>
    method_get body (ascii ''status'') \<noteq> Inr (JStr (ascii ''ok'')) \<longrightarrow>
      (\<exists>e. upload w fn = Inl e)) \<and>
   (retrieve_clause (clause_query d) (contract_type d) = Inr rc \<and>
    refine_clause_with_legal_expertise w rc (contract_type d) = Inr c \<and>
    save_as_pdf w (get_legal_template d c) (uuid4_hex w @ ascii ''.pdf'') = Inr () \<and>
    open_rb w (uuid4_hex w @ ascii ''.pdf'') = Inr () \<and>
    requests_post w (uuid4_hex w @ ascii ''.pdf'') = Inr r \<and> status_code r \<noteq> 200 \<longrightarrow>
      generate_contract w d =
        Inl (HTTPException 400
          (ascii ''Contract generation failed: '' @ ascii ''Upload failed: '' @
           str_int (status_code r)))) \<and>
   (generate_contract w d = Inr resp \<longrightarrow>
      upload w (uuid4_hex w @ ascii ''.pdf'') = Inr (pdf_url resp))"
proof (intro conjI impI)
  show "upload w fn = Inr url \<longleftrightarrow>
      open_rb w fn = Inr () \<and>
      (\<exists>r body dat. requests_post w fn = Inr r \<and> status_code r = 200 \<and>
         json_result r = Inr (JObj body) \<and>
         map_of body (ascii ''status'') = Some (JStr (ascii ''ok'')) \<and>
         map_of body (ascii ''data'') = Some (JObj dat) \<and>
         map_of dat (ascii ''downloadPage'') = Some url)"
    by (rule upload_Inr)
next
  assume "open_rb w fn = Inr () \<and> requests_post w fn = Inr r \<and> status_code r \<noteq> 200"
  then show "upload w fn =
        Inl (Raised ''Exception'' (ascii ''Upload failed: '' @ str_int (status_code r)))"
    by (simp add: upload_not_200)
next
  assume "open_rb w fn = Inr () \<and> requests_post w fn = Inr r \<and> status_code r = 200 \<and>
    json_result r = Inr body \<and>
    method_get body (ascii ''status'') \<noteq> Inr (JStr (ascii ''ok''))"
  then show "\<exists>e. upload w fn = Inl e"
    using upload_not_ok [of w fn r body] by blast
next
  assume a: "retrieve_clause (clause_query d) (contract_type d) = Inr rc \<and>
    refine_clause_with_legal_expertise w rc (contract_type d) = Inr c \<and>
    save_as_pdf w (get_legal_template d c) (uuid4_hex w @ ascii ''.pdf'') = Inr () \<and>
    open_rb w (uuid4_hex w @ ascii ''.pdf'') = Inr () \<and>
    requests_post w (uuid4_hex w @ ascii ''.pdf'') = Inr r \<and> status_code r \<noteq> 200"
  then have "upload w (uuid4_hex w @ ascii ''.pdf'') =
        Inl (Raised ''Exception'' (ascii ''Upload failed: '' @ str_int (status_code r)))"
    by (simp add: upload_not_200)
  with a have "generate_contract_try w d =
        Inl (Raised ''Exception'' (ascii ''Upload failed: '' @ str_int (status_code r)))"
    by (auto intro: try_stage_upload)
  then show "generate_contract w d =
        Inl (HTTPException 400
          (ascii ''Contract generation failed: '' @ ascii ''Upload failed: '' @
           str_int (status_code r)))"
    by (simp add: generate_contract_def)
next
  assume "generate_contract w d = Inr resp"
  then show "upload w (uuid4_hex w @ ascii ''.pdf'') = Inr (pdf_url resp)"
    by (auto simp add: generate_contract_Inr try_Inr)
qed

theorem upload_outcome_witness:
  "upload ok_world stub_filename = Inr (JStr (ascii ''https://example/x'')) \<and>
   generate_contract ok_world scenario_request =
     Inr \<lparr>message = ascii ''Contract generated and uploaded.'',
          contract = get_legal_template scenario_request refined_sample,
          pdf_url = JStr (ascii ''https://example/x'')\<rparr> \<and>
   upload http_500_world stub_filename =
     Inl (Raised ''Exception'' (ascii ''Upload failed: 500'')) \<and>
   generate_contract http_500_world scenario_request =
     Inl (HTTPException 400 (ascii ''Contract generation failed: Upload failed: 500'')) \<and>
   sublist (ascii ''Upload failed'') (ascii ''Contract generation failed: Upload failed: 500'')"
proof -
  have 1: "upload ok_world stub_filename = Inr (JStr (ascii ''https://example/x''))"
    using upload_outcome [where w = ok_world and fn = stub_filename
        and url = "JStr (ascii ''https://example/x'')"]
    by (simp add: world_defs ok_body_def ascii_def)
  have u: "uuid4_hex ok_world @ ascii ''.pdf'' = stub_filename"
    by (simp add: ok_world_def uuid_stub)
  from gen_ok upload_outcome [where w = ok_world and d = scenario_request
      and resp = "\<lparr>message = ascii ''Contract generated and uploaded.'',
          contract = get_legal_template scenario_request refined_sample,
          pdf_url = JStr (ascii ''https://example/x'')\<rparr>"]
  have 2: "upload ok_world stub_filename = Inr (JStr (ascii ''https://example/x''))"
    by (simp add: u)
  have 3: "upload http_500_world stub_filename =
     Inl (Raised ''Exception'' (ascii ''Upload failed: 500''))"
    using upload_outcome [where w = http_500_world and fn = stub_filename
        and r = "\<lparr>status_code = 500, json_result = Inl (Raised ''JSONDecodeError'' (ascii ''Expecting value''))\<rparr>"]
    by (simp add: world_defs str_int_def ascii_def)
  have u5: "uuid4_hex http_500_world @ ascii ''.pdf'' = stub_filename"
    by (simp add: http_500_world_def uuid_stub)
  let ?r = "\<lparr>status_code = 500,
      json_result = Inl (Raised ''JSONDecodeError'' (ascii ''Expecting value''))\<rparr>"
  obtain rc where rc: "retrieve_clause (clause_query scenario_request)
      (contract_type scenario_request) = Inr rc"
    using retrieve_scen by blast
  have hyp: "retrieve_clause (clause_query scenario_request)
      (contract_type scenario_request) = Inr rc \<and>
    refine_clause_with_legal_expertise http_500_world rc (contract_type scenario_request) =
      Inr refined_sample \<and>
    save_as_pdf http_500_world (get_legal_template scenario_request refined_sample)
      (uuid4_hex http_500_world @ ascii ''.pdf'') = Inr () \<and>
    open_rb http_500_world (uuid4_hex http_500_world @ ascii ''.pdf'') = Inr () \<and>
    requests_post http_500_world (uuid4_hex http_500_world @ ascii ''.pdf'') = Inr ?r \<and>
    status_code ?r \<noteq> 200"
    by (simp add: rc http_500_world_def refine_scen save_stub) (simp add: stub_world_def)
  have 4: "generate_contract http_500_world scenario_request =
     Inl (HTTPException 400 (ascii ''Contract generation failed: Upload failed: 500''))"
    using upload_outcome [where w = http_500_world and d = scenario_request
        and c = refined_sample and rc = rc and r = ?r,
        THEN conjunct2, THEN conjunct2, THEN conjunct2, THEN conjunct1, THEN mp, OF hyp]
    by (simp add: str_int_def ascii_def)
  have 5: "sublist (ascii ''Upload failed'') (ascii ''Contract generation failed: Upload failed: 500'')"
  proof -
    have "ascii ''Contract generation failed: Upload failed: 500'' =
      ascii ''Contract generation failed: '' @ ascii ''Upload failed'' @ ascii '': 500''"
      by (simp add: ascii_def)
    then show ?thesis unfolding sublist_def by blast
  qed
  from 1 gen_ok 3 4 5 show ?thesis by simp
qed






end
